theory Spec2Isabelle
  imports Complex_Main
begin

section \<open>Python values\<close>

text \<open>
  The program is one Python class, \<open>PredictiveMaintenanceETL\<close>. Its rows are dictionaries:
  a raw row maps a column name to the cell's text, a validated row maps the seven field names
  to a \<open>str\<close>, an \<open>int\<close> or a \<open>float\<close>. Exceptions are values of \<open>py_error\<close>.

  A Python \<open>float\<close> is modelled by \<open>pyfloat\<close>: a finite value, one of the two infinities, or
  NaN. Finite values are exact rationals: the binary rounding of each operation, overflow and
  underflow are not modelled. Everything else follows Python: NaN compares false with
  everything, dividing by zero raises, and \<open>round(x, 2)\<close> rounds the exact value to the nearest
  multiple of 1/100, a tie going to the even one. Python's \<open>int\<close> is unbounded, hence \<open>int\<close>.
\<close>

datatype py_error = IndexError | KeyError string | TypeError | ZeroDivisionError

datatype pyfloat = Fin rat | PInf | NInf | NaN

datatype pyval = PyStr string | PyInt int | PyFloat pyfloat

definition and_then :: "py_error + 'a \<Rightarrow> ('a \<Rightarrow> py_error + 'b) \<Rightarrow> py_error + 'b" where
  "and_then m f = (case m of Inl e \<Rightarrow> Inl e | Inr x \<Rightarrow> f x)"

definition getitem :: "(string \<rightharpoonup> 'v) \<Rightarrow> string \<Rightarrow> py_error + 'v" where
  \<comment> \<open>\<open>record[key]\<close>\<close>
  "getitem d k = (case d k of None \<Rightarrow> Inl (KeyError k) | Some v \<Rightarrow> Inr v)"

subsection \<open>Float arithmetic\<close>

fun fneg :: "pyfloat \<Rightarrow> pyfloat" where
  "fneg (Fin a) = Fin (- a)"
| "fneg PInf = NInf"
| "fneg NInf = PInf"
| "fneg NaN = NaN"

fun fmul :: "pyfloat \<Rightarrow> pyfloat \<Rightarrow> pyfloat" where
  "fmul (Fin a) (Fin b) = Fin (a * b)"
| "fmul NaN y = NaN"
| "fmul x NaN = NaN"
| "fmul (Fin a) y = (if a = 0 then NaN else if 0 < a then y else fneg y)"
| "fmul x (Fin b) = (if b = 0 then NaN else if 0 < b then x else fneg x)"
| "fmul PInf y = y"
| "fmul NInf y = fneg y"

fun fadd :: "pyfloat \<Rightarrow> pyfloat \<Rightarrow> pyfloat" where
  "fadd (Fin a) (Fin b) = Fin (a + b)"
| "fadd NaN y = NaN"
| "fadd x NaN = NaN"
| "fadd (Fin a) y = y"
| "fadd x (Fin b) = x"
| "fadd PInf PInf = PInf"
| "fadd NInf NInf = NInf"
| "fadd PInf NInf = NaN"
| "fadd NInf PInf = NaN"

definition fsub :: "pyfloat \<Rightarrow> pyfloat \<Rightarrow> pyfloat" where
  "fsub x y = fadd x (fneg y)"

fun fdiv :: "pyfloat \<Rightarrow> pyfloat \<Rightarrow> pyfloat" where
  \<comment> \<open>the quotient for a divisor that is not zero; \<open>py_truediv\<close> raises on zero first\<close>
  "fdiv (Fin a) (Fin b) = Fin (a / b)"
| "fdiv NaN y = NaN"
| "fdiv x NaN = NaN"
| "fdiv (Fin a) y = Fin 0"
| "fdiv x (Fin b) = (if 0 < b then x else fneg x)"
| "fdiv x y = NaN"

fun flt :: "pyfloat \<Rightarrow> pyfloat \<Rightarrow> bool" where
  "flt (Fin a) (Fin b) = (a < b)"
| "flt NaN y = False"
| "flt x NaN = False"
| "flt NInf y = (y \<noteq> NInf)"
| "flt x PInf = (x \<noteq> PInf)"
| "flt x y = False"

definition fle :: "pyfloat \<Rightarrow> pyfloat \<Rightarrow> bool" where
  "fle x y = (flt x y \<or> (x = y \<and> x \<noteq> NaN))"

definition round_half_even :: "rat \<Rightarrow> int" where
  "round_half_even x =
     (let f = \<lfloor>x\<rfloor>; d = x - of_int f
      in if d < 1 / 2 then f else if 1 / 2 < d then f + 1 else if even f then f else f + 1)"

definition round2 :: "rat \<Rightarrow> rat" where
  \<comment> \<open>the nearest multiple of 1/100\<close>
  "round2 a = of_int (round_half_even (a * 100)) / 100"

fun fround2 :: "pyfloat \<Rightarrow> pyfloat" where
  \<comment> \<open>\<open>round(x, 2)\<close> on a float; infinities and NaN round to themselves\<close>
  "fround2 (Fin a) = Fin (round2 a)"
| "fround2 x = x"

subsection \<open>Operators on dictionary values\<close>

text \<open>
  The operands of \<open>calculate_metrics\<close> are numbers on every validated row. Where an operand
  is a \<open>str\<close> the operators below raise TypeError; Python would let \<open>str * int\<close> repeat the
  string and raise TypeError at the \<open>round\<close> that follows, so that \<open>calculate_metrics\<close> raises
  the same exception either way.
\<close>

fun as_float :: "pyval \<Rightarrow> pyfloat option" where
  \<comment> \<open>the numeric value of an operand; an \<open>int\<close> meeting a \<open>float\<close> is converted\<close>
  "as_float (PyInt i) = Some (Fin (of_int i))"
| "as_float (PyFloat x) = Some x"
| "as_float (PyStr s) = None"

fun py_mul :: "pyval \<Rightarrow> pyval \<Rightarrow> py_error + pyval" where
  "py_mul (PyInt a) (PyInt b) = Inr (PyInt (a * b))"
| "py_mul a b =
     (case (as_float a, as_float b) of
        (Some x, Some y) \<Rightarrow> Inr (PyFloat (fmul x y))
      | _ \<Rightarrow> Inl TypeError)"

fun py_add :: "pyval \<Rightarrow> pyval \<Rightarrow> py_error + pyval" where
  "py_add (PyInt a) (PyInt b) = Inr (PyInt (a + b))"
| "py_add a b =
     (case (as_float a, as_float b) of
        (Some x, Some y) \<Rightarrow> Inr (PyFloat (fadd x y))
      | _ \<Rightarrow> Inl TypeError)"

fun py_sub :: "pyval \<Rightarrow> pyval \<Rightarrow> py_error + pyval" where
  "py_sub (PyInt a) (PyInt b) = Inr (PyInt (a - b))"
| "py_sub a b =
     (case (as_float a, as_float b) of
        (Some x, Some y) \<Rightarrow> Inr (PyFloat (fsub x y))
      | _ \<Rightarrow> Inl TypeError)"

definition py_truediv :: "pyval \<Rightarrow> pyval \<Rightarrow> py_error + pyval" where
  \<comment> \<open>\<open>a / b\<close>: always a float, ZeroDivisionError on a zero divisor\<close>
  "py_truediv a b =
     (case (as_float a, as_float b) of
        (Some x, Some y) \<Rightarrow>
          if y = Fin 0 then Inl ZeroDivisionError else Inr (PyFloat (fdiv x y))
      | _ \<Rightarrow> Inl TypeError)"

fun py_round2 :: "pyval \<Rightarrow> py_error + pyval" where
  \<comment> \<open>\<open>round(v, 2)\<close>: an \<open>int\<close> is its own rounding\<close>
  "py_round2 (PyInt i) = Inr (PyInt i)"
| "py_round2 (PyFloat x) = Inr (PyFloat (fround2 x))"
| "py_round2 (PyStr s) = Inl TypeError"

definition py_lt :: "pyval \<Rightarrow> pyval \<Rightarrow> py_error + bool" where
  "py_lt a b =
     (case (as_float a, as_float b) of
        (Some x, Some y) \<Rightarrow> Inr (flt x y)
      | _ \<Rightarrow> Inl TypeError)"

definition py_le :: "pyval \<Rightarrow> pyval \<Rightarrow> py_error + bool" where
  "py_le a b =
     (case (as_float a, as_float b) of
        (Some x, Some y) \<Rightarrow> Inr (fle x y)
      | _ \<Rightarrow> Inl TypeError)"

section \<open>The metrics calculation\<close>

record metrics_result =
  predicted_failure_risk :: pyval
  maintenance_urgency_ratio :: pyval
  operating_margin :: pyval
  composite_score :: pyval
  efficiency_ratio :: pyval
  status :: string
  recommendation :: string

text \<open>
  The result dictionary has seven fixed keys and is a record here. In the two definitions
  below the locals \<open>pfr\<close>, \<open>mur\<close>, \<open>om\<close>, \<open>cs\<close> and \<open>er\<close> are the source's
  \<open>predicted_failure_risk\<close>, \<open>maintenance_urgency_ratio\<close>, \<open>operating_margin\<close>,
  \<open>composite_score\<close> and \<open>efficiency_ratio\<close>, whose names the record's fields carry.
\<close>

definition classify :: "pyval \<Rightarrow> pyval \<Rightarrow> pyval \<Rightarrow> pyval \<Rightarrow> py_error + string \<times> string" where
  \<comment> \<open>lines 160 to 169: \<open>is_efficient\<close>, \<open>is_urgent\<close> and the final \<open>if\<close>; \<open>and\<close> and the
      chained comparison evaluate left to right and stop at the first false operand\<close>
  "classify cs er mur maintenance_threshold =
     and_then (py_le (PyFloat (Fin (9 / 10))) er) (\<lambda>lo.
     and_then (if lo then py_le er (PyFloat (Fin (99 / 10))) else Inr False) (\<lambda>is_efficient.
     and_then (py_lt maintenance_threshold mur) (\<lambda>is_urgent.
     and_then (py_le (PyInt 75) cs) (\<lambda>high.
       if high \<and> is_efficient \<and> \<not> is_urgent
       then Inr (''Optimal'', ''No immediate maintenance required'')
       else Inr (''Requires Maintenance'', ''Schedule maintenance promptly'')))))"

definition calculate_metrics :: "(string \<rightharpoonup> pyval) \<Rightarrow> py_error + metrics_result" where
  "calculate_metrics record =
     and_then (getitem record ''vibration_level'') (\<lambda>vibration_level.
     and_then (getitem record ''scaling_factor'') (\<lambda>scaling_factor.
     and_then (getitem record ''runtime_hours'') (\<lambda>runtime_hours.
     and_then (getitem record ''max_operating_hours'') (\<lambda>max_operating_hours.
     and_then (getitem record ''maintenance_threshold'') (\<lambda>maintenance_threshold.
     and_then (and_then (py_mul vibration_level scaling_factor) py_round2) (\<lambda>pfr.
     and_then (and_then (and_then (py_truediv pfr runtime_hours)
                 (\<lambda>q. py_mul q (PyInt 100))) py_round2) (\<lambda>mur.
     and_then (and_then (and_then (and_then (py_sub max_operating_hours runtime_hours)
                 (\<lambda>d. py_truediv d max_operating_hours))
                 (\<lambda>q. py_mul q (PyInt 100))) py_round2) (\<lambda>om.
     and_then (and_then (and_then (py_mul om (PyFloat (Fin (3 / 10)))) (\<lambda>a.
                 and_then (and_then (py_sub (PyInt 100) mur)
                   (\<lambda>d. py_mul d (PyFloat (Fin (7 / 10))))) (\<lambda>b. py_add a b)))
                 py_round2) (\<lambda>cs.
     and_then (and_then (py_truediv runtime_hours pfr) py_round2) (\<lambda>er.
     and_then (classify cs er mur maintenance_threshold) (\<lambda>(st, rec).
       Inr \<lparr>predicted_failure_risk = pfr, maintenance_urgency_ratio = mur,
            operating_margin = om, composite_score = cs, efficiency_ratio = er,
            status = st, recommendation = rec\<rparr>)))))))))))"

section \<open>Strings\<close>

text \<open>
  A \<open>str\<close> is a list of characters. A \<open>char\<close> stands for a code point below 256, so the
  digits and the white space of Unicode beyond Latin-1 are outside the model.
\<close>

definition py_isspace :: "char \<Rightarrow> bool" where
  \<comment> \<open>the code points below 256 that \<open>str.strip()\<close> removes\<close>
  "py_isspace c = (of_char c \<in> {9, 10, 11, 12, 13, 28, 29, 30, 31, 32, 133, 160 :: nat})"

definition py_strip :: "string \<Rightarrow> string" where
  "py_strip s = rev (dropWhile py_isspace (rev (dropWhile py_isspace s)))"

fun join :: "string \<Rightarrow> string list \<Rightarrow> string" where
  \<comment> \<open>\<open>sep.join(xs)\<close>\<close>
  "join sep [] = []"
| "join sep [x] = x"
| "join sep (x # y # ys) = x @ sep @ join sep (y # ys)"

definition digit_char :: "nat \<Rightarrow> char" where
  "digit_char d = ''0123456789'' ! d"

function str_nat :: "nat \<Rightarrow> string" where
  \<comment> \<open>\<open>str(n)\<close> for \<open>n \<ge> 0\<close>\<close>
  "str_nat n = (if n < 10 then [digit_char n] else str_nat (n div 10) @ [digit_char (n mod 10)])"
  by pat_completeness auto
termination
  by (relation "measure id") auto

declare str_nat.simps [simp del]

definition str_int :: "int \<Rightarrow> string" where
  "str_int i = (if i < 0 then CHR ''-'' # str_nat (nat (- i)) else str_nat (nat i))"

subsection \<open>Parsing numbers: \<open>int(s)\<close> and \<open>float(s)\<close>\<close>

definition is_digit :: "char \<Rightarrow> bool" where
  "is_digit c = (48 \<le> (of_char c :: nat) \<and> (of_char c :: nat) \<le> 57)"

definition digit_val :: "char \<Rightarrow> nat" where
  "digit_val c = of_char c - 48"

fun digitpart :: "nat \<Rightarrow> nat \<Rightarrow> string \<Rightarrow> nat \<times> nat \<times> string" where
  \<comment> \<open>after a first digit: more digits, each optionally preceded by one underscore;
      the value so far, the number of digits so far, and what is left\<close>
  "digitpart acc n [] = (acc, n, [])"
| "digitpart acc n (c # cs) =
     (if is_digit c then digitpart (10 * acc + digit_val c) (Suc n) cs
      else if c = CHR ''_'' then
        (case cs of
           [] \<Rightarrow> (acc, n, c # cs)
         | d # ds \<Rightarrow>
             if is_digit d then digitpart (10 * acc + digit_val d) (Suc n) ds
             else (acc, n, c # cs))
      else (acc, n, c # cs))"

definition read_digitpart :: "string \<Rightarrow> (nat \<times> nat \<times> string) option" where
  "read_digitpart s =
     (case s of
        [] \<Rightarrow> None
      | c # cs \<Rightarrow> if is_digit c then Some (digitpart (digit_val c) 1 cs) else None)"

definition read_sign :: "string \<Rightarrow> bool \<times> string" where
  \<comment> \<open>an optional sign; True is negative\<close>
  "read_sign s =
     (case s of
        [] \<Rightarrow> (False, s)
      | c # cs \<Rightarrow>
          if c = CHR ''+'' then (False, cs) else if c = CHR ''-'' then (True, cs)
          else (False, s))"

definition py_int :: "string \<Rightarrow> int option" where
  \<comment> \<open>\<open>int(s)\<close>; None is ValueError\<close>
  "py_int s =
     (let (neg, body) = read_sign (py_strip s)
      in case read_digitpart body of
           Some (v, n, []) \<Rightarrow> Some (if neg then - int v else int v)
         | _ \<Rightarrow> None)"

fun ci_match :: "string \<Rightarrow> string \<Rightarrow> bool" where
  \<comment> \<open>the text is the lower-case word, letter case ignored\<close>
  "ci_match [] [] = True"
| "ci_match (c # cs) (p # ps) =
     ((c = p \<or> (of_char c :: nat) + 32 = of_char p) \<and> ci_match cs ps)"
| "ci_match cs ps = False"

definition read_exponent :: "rat \<Rightarrow> string \<Rightarrow> rat option" where
  \<comment> \<open>the end of the text, or \<open>e\<close>, an optional sign and digits\<close>
  "read_exponent m s =
     (case s of
        [] \<Rightarrow> Some m
      | c # cs \<Rightarrow>
          if c = CHR ''e'' \<or> c = CHR ''E'' then
            (let (neg, body) = read_sign cs
             in case read_digitpart body of
                  Some (v, n, []) \<Rightarrow> Some (if neg then m / 10 ^ v else m * 10 ^ v)
                | _ \<Rightarrow> None)
          else None)"

definition read_number :: "string \<Rightarrow> rat option" where
  \<comment> \<open>digits with an optional point and fraction, or a point and a fraction; then the exponent\<close>
  "read_number s =
     (case s of
        [] \<Rightarrow> None
      | c # cs \<Rightarrow>
          if c = CHR ''.'' then
            (case read_digitpart cs of
               None \<Rightarrow> None
             | Some (fv, fn, r) \<Rightarrow> read_exponent (of_nat fv / 10 ^ fn) r)
          else
            (case read_digitpart s of
               None \<Rightarrow> None
             | Some (iv, n, r) \<Rightarrow>
                 (case r of
                    [] \<Rightarrow> Some (of_nat iv)
                  | p # r1 \<Rightarrow>
                      if p = CHR ''.'' then
                        (case read_digitpart r1 of
                           None \<Rightarrow> read_exponent (of_nat iv) r1
                         | Some (fv, fn, r2) \<Rightarrow>
                             read_exponent (of_nat iv + of_nat fv / 10 ^ fn) r2)
                      else read_exponent (of_nat iv) r)))"

definition py_float :: "string \<Rightarrow> pyfloat option" where
  \<comment> \<open>\<open>float(s)\<close>; None is ValueError. A decimal numeral denotes its exact value.\<close>
  "py_float s =
     (let (neg, body) = read_sign (py_strip s)
      in if ci_match body ''inf'' \<or> ci_match body ''infinity'' then Some (if neg then NInf else PInf)
         else if ci_match body ''nan'' then Some NaN
         else (case read_number body of
                 None \<Rightarrow> None
               | Some q \<Rightarrow> Some (Fin (if neg then - q else q))))"

section \<open>Validation\<close>

datatype field_type =
  Type_string | Type_positive_integer | Type_positive_number | Type_range int int

definition field_requirements :: "(string \<times> field_type) list" where
  "field_requirements =
     [(''machine_id'', Type_string),
      (''runtime_hours'', Type_positive_integer),
      (''vibration_level'', Type_positive_number),
      (''temperature'', Type_range 0 200),
      (''maintenance_threshold'', Type_range 0 100),
      (''max_operating_hours'', Type_positive_integer),
      (''scaling_factor'', Type_positive_number)]"

definition required_fields :: "string list" where
  "required_fields = map fst field_requirements"

type_synonym raw_row = "string \<rightharpoonup> string"

type_synonym typed_row = "string \<rightharpoonup> pyval"

definition validate_field ::
  "raw_row \<Rightarrow> string \<times> field_type \<Rightarrow> string list \<times> typed_row \<Rightarrow> string list \<times> typed_row" where
  \<comment> \<open>one turn of the loop over the fields (lines 54 to 94), on the pair
      \<open>(row_errors, valid_record)\<close>; the field comes with its requirements\<close>
  "validate_field record fr st =
     (let (field, requirements) = fr; (row_errors, valid_record) = st
      in case record field of
           None \<Rightarrow> (row_errors @ [''Missing required field: '' @ field], valid_record)
         | Some raw \<Rightarrow>
             if py_strip raw = [] then
               (row_errors @ [''Missing required field: '' @ field], valid_record)
             else
               (let v = py_strip raw
                in case requirements of
                     Type_string \<Rightarrow> (row_errors, valid_record(field \<mapsto> PyStr v))
                   | Type_positive_integer \<Rightarrow>
                       (case py_int v of
                          Some num_value \<Rightarrow>
                            if num_value \<le> 0 then
                              (row_errors @ [''Invalid value for '' @ field @
                                 '': must be a positive integer''], valid_record)
                            else (row_errors, valid_record(field \<mapsto> PyInt num_value))
                        | None \<Rightarrow>
                            (row_errors @ [''Invalid value for '' @ field @
                               '': must be a positive integer''], valid_record))
                   | Type_positive_number \<Rightarrow>
                       (case py_float v of
                          Some num_value \<Rightarrow>
                            if fle num_value (Fin 0) then
                              (row_errors @ [''Invalid value for '' @ field @
                                 '': must be a positive number''], valid_record)
                            else (row_errors, valid_record(field \<mapsto> PyFloat num_value))
                        | None \<Rightarrow>
                            (row_errors @ [''Invalid value for '' @ field @
                               '': must be a positive number''], valid_record))
                   | Type_range lo hi \<Rightarrow>
                       (case py_float v of
                          Some num_value \<Rightarrow>
                            if flt num_value (Fin (of_int lo)) \<or> flt (Fin (of_int hi)) num_value
                            then
                              (row_errors @ [''Invalid value for '' @ field @
                                 '': must be between '' @ str_int lo @ '' and '' @ str_int hi],
                               valid_record)
                            else (row_errors, valid_record(field \<mapsto> PyFloat num_value))
                        | None \<Rightarrow>
                            (row_errors @ [''Invalid value for '' @ field @
                               '': must be a number''], valid_record))))"

definition validate_record :: "raw_row \<Rightarrow> string list \<times> typed_row" where
  \<comment> \<open>the loop over the fields, from \<open>row_errors = []\<close> and \<open>valid_record = {}\<close>\<close>
  "validate_record record =
     foldl (\<lambda>st fr. validate_field record fr st) ([], Map.empty) field_requirements"

fun validate_rows ::
  "nat \<Rightarrow> raw_row list \<Rightarrow> string list \<times> typed_row list \<Rightarrow> string list \<times> typed_row list" where
  \<comment> \<open>the loop over \<open>enumerate(records, 1)\<close>, on the pair \<open>(errors, valid_records)\<close>\<close>
  "validate_rows i [] st = st"
| "validate_rows i (record # rest) (errors, valid_records) =
     (let (row_errors, valid_record) = validate_record record
      in validate_rows (Suc i) rest
           (if row_errors \<noteq> []
            then (errors @ [''Row '' @ str_nat i @ '': '' @ join '', '' row_errors],
                  valid_records)
            else (errors, valid_records @ [valid_record])))"

definition validate_data :: "raw_row list \<Rightarrow> py_error + bool \<times> string \<times> typed_row list" where
  "validate_data records =
     (case records of
        [] \<Rightarrow> Inl IndexError
      | first_record # _ \<Rightarrow>
          (let missing_fields = filter (\<lambda>field. first_record field = None) required_fields
           in if missing_fields \<noteq> [] then
                Inr (False, ''ERROR: Missing required field(s): '' @ join '', '' missing_fields
                       @ '' in header.'', [])
              else
                (let (errors, valid_records) = validate_rows 1 records ([], [])
                 in if errors \<noteq> [] then Inr (False, join [CHR 0x0A] errors, [])
                    else Inr (True, [], valid_records))))"

section \<open>Reports and the pipeline\<close>

definition generate_validation_report :: "bool \<Rightarrow> typed_row list \<Rightarrow> string \<Rightarrow> string" where
  "generate_validation_report is_valid records error_message =
     ''# Data Validation Report'' @ [CHR 0x0A] @
     (case records of
        [] \<Rightarrow>
          ''## Validation Summary:'' @ [CHR 0x0A] @
          ''Validation failed with the following errors:'' @ [CHR 0x0A] @ ''```'' @ [CHR 0x0A]
            @ error_message @ [CHR 0x0A] @ ''```''
      | first_record # _ \<Rightarrow>
          ''## Data Structure Check:'' @ [CHR 0x0A] @
          ''- Number of machines: '' @ str_nat (length records) @ [CHR 0x0A] @
          ''- Number of fields per record: '' @ str_nat (length required_fields)
            @ [CHR 0x0A, CHR 0x0A] @
          ''## Required Fields Check:'' @ [CHR 0x0A] @
          concat (map (\<lambda>field. ''- '' @ field @ '': ''
                         @ (if first_record field \<noteq> None then ''present'' else ''missing'')
                         @ [CHR 0x0A]) required_fields) @
          [CHR 0x0A] @ ''## Validation Summary:'' @ [CHR 0x0A] @
          (if is_valid then
             ''Data validation is successful! Would you like to proceed with analysis or provide another dataset?''
           else
             ''Validation failed with the following errors:'' @ [CHR 0x0A] @ ''```'' @ [CHR 0x0A]
               @ error_message @ [CHR 0x0A] @ ''```''))"

text \<open>
  \<open>csv.DictReader\<close> belongs to Python's library, not to the program: the reader is a parameter
  \<open>reader\<close>, which gives the rows of a text or, as \<open>Inl\<close>, the message of the exception it
  raised. \<open>parse_csv_data\<close> returns either the rows or an error text (\<open>Inl\<close>), the two cases
  that \<open>process_csv_data\<close> tells apart with \<open>isinstance(records, str)\<close>.
\<close>

definition parse_csv_data :: "(string \<Rightarrow> string + raw_row list) \<Rightarrow> string \<Rightarrow> string + raw_row list" where
  "parse_csv_data reader csv_data =
     (case reader (py_strip csv_data) of
        Inl e \<Rightarrow>
          Inl (''ERROR: Invalid data format. Please provide data in CSV format. Details: '' @ e)
      | Inr records \<Rightarrow>
          if records = [] then
            Inl (''ERROR: Invalid data format. Please provide data in CSV format. Details: ''
                   @ ''No data found in the CSV input'')
          else Inr records)"

fun map_raising :: "('a \<Rightarrow> py_error + 'b) \<Rightarrow> 'a list \<Rightarrow> py_error + 'b list" where
  \<comment> \<open>a list comprehension whose body may raise\<close>
  "map_raising f [] = Inr []"
| "map_raising f (x # xs) =
     and_then (f x) (\<lambda>y. and_then (map_raising f xs) (\<lambda>ys. Inr (y # ys)))"

text \<open>
  \<open>process_csv_data\<close> calls the methods \<open>validate_data\<close> and \<open>calculate_metrics\<close> of \<open>self\<close>;
  \<open>process_csv_data_with\<close> takes the two as arguments, and \<open>process_csv_data\<close> passes the
  class's own. The analysis report prints floats, which the model does not render: it is the
  parameter \<open>generate_analysis_report\<close>.
\<close>

definition process_csv_data_with ::
  "(raw_row list \<Rightarrow> py_error + bool \<times> string \<times> typed_row list) \<Rightarrow>
   (typed_row \<Rightarrow> py_error + metrics_result) \<Rightarrow>
   (string \<Rightarrow> string + raw_row list) \<Rightarrow>
   (typed_row list \<Rightarrow> metrics_result list \<Rightarrow> string) \<Rightarrow> string \<Rightarrow> py_error + string" where
  "process_csv_data_with validate calculate reader generate_analysis_report csv_data =
     (case parse_csv_data reader csv_data of
        Inl error_text \<Rightarrow> Inr error_text
      | Inr records \<Rightarrow>
          and_then (validate records) (\<lambda>(is_valid, error_message, valid_records).
            let validation_report =
                  generate_validation_report is_valid valid_records error_message
            in if \<not> is_valid then Inr validation_report
               else and_then (map_raising calculate valid_records) (\<lambda>calculations.
                 Inr (validation_report @ [CHR 0x0A, CHR 0x0A]
                        @ generate_analysis_report valid_records calculations))))"

definition process_csv_data ::
  "(string \<Rightarrow> string + raw_row list) \<Rightarrow>
   (typed_row list \<Rightarrow> metrics_result list \<Rightarrow> string) \<Rightarrow> string \<Rightarrow> py_error + string" where
  "process_csv_data = process_csv_data_with validate_data calculate_metrics"

section \<open>The specification's notions and the rows of its examples\<close>

fun positive :: "pyval option \<Rightarrow> bool" where
  \<comment> \<open>the field is present and its number is greater than 0\<close>
  "positive (Some (PyInt i)) = (0 < i)"
| "positive (Some (PyFloat x)) = flt (Fin 0) x"
| "positive v = False"

definition typed_row_invariants :: "typed_row \<Rightarrow> bool" where
  \<comment> \<open>the invariants the specification names for a TypedRow\<close>
  "typed_row_invariants r =
     (positive (r ''runtime_hours'') \<and> positive (r ''max_operating_hours'') \<and>
      positive (r ''vibration_level'') \<and> positive (r ''scaling_factor''))"

definition spec_optimal :: "pyfloat \<Rightarrow> pyfloat \<Rightarrow> pyfloat \<Rightarrow> pyfloat \<Rightarrow> bool" where
  \<comment> \<open>the specification's condition for "Optimal", on the rounded values:
      \<open>composite_score >= 75 AND is_efficient AND NOT is_urgent\<close>\<close>
  "spec_optimal cs er mur maintenance_threshold =
     (fle (Fin 75) cs \<and> (fle (Fin (9 / 10)) er \<and> fle er (Fin (99 / 10))) \<and>
      \<not> flt maintenance_threshold mur)"

definition p4_row :: typed_row where
  \<comment> \<open>the row of the sample data's machine M501, the inputs of property P4\<close>
  "p4_row =
     [''machine_id'' \<mapsto> PyStr ''M501'', ''runtime_hours'' \<mapsto> PyInt 50,
      ''vibration_level'' \<mapsto> PyFloat (Fin 2), ''temperature'' \<mapsto> PyFloat (Fin 80),
      ''maintenance_threshold'' \<mapsto> PyFloat (Fin 30), ''max_operating_hours'' \<mapsto> PyInt 200,
      ''scaling_factor'' \<mapsto> PyFloat (Fin 5)]"

definition p4_row_renamed :: typed_row where
  \<comment> \<open>the same machine under another name and at another temperature\<close>
  "p4_row_renamed =
     [''machine_id'' \<mapsto> PyStr ''X'', ''runtime_hours'' \<mapsto> PyInt 50,
      ''vibration_level'' \<mapsto> PyFloat (Fin 2), ''temperature'' \<mapsto> PyFloat (Fin 199),
      ''maintenance_threshold'' \<mapsto> PyFloat (Fin 30), ''max_operating_hours'' \<mapsto> PyInt 200,
      ''scaling_factor'' \<mapsto> PyFloat (Fin 5)]"

definition p5_row :: typed_row where
  \<comment> \<open>the inputs of property P5: P4 with \<open>maintenance_threshold = 10\<close>\<close>
  "p5_row = p4_row(''maintenance_threshold'' \<mapsto> PyFloat (Fin 10))"

definition small_risk_raw :: raw_row where
  \<comment> \<open>the CSV line \<open>M1,50,0.001,80,30,200,1\<close> under the full header\<close>
  "small_risk_raw =
     [''machine_id'' \<mapsto> ''M1'', ''runtime_hours'' \<mapsto> ''50'',
      ''vibration_level'' \<mapsto> ''0.001'', ''temperature'' \<mapsto> ''80'',
      ''maintenance_threshold'' \<mapsto> ''30'', ''max_operating_hours'' \<mapsto> ''200'',
      ''scaling_factor'' \<mapsto> ''1'']"

definition small_risk_row :: typed_row where
  \<comment> \<open>what validation makes of \<open>small_risk_raw\<close>\<close>
  "small_risk_row =
     [''machine_id'' \<mapsto> PyStr ''M1'', ''runtime_hours'' \<mapsto> PyInt 50,
      ''vibration_level'' \<mapsto> PyFloat (Fin (1 / 1000)), ''temperature'' \<mapsto> PyFloat (Fin 80),
      ''maintenance_threshold'' \<mapsto> PyFloat (Fin 30), ''max_operating_hours'' \<mapsto> PyInt 200,
      ''scaling_factor'' \<mapsto> PyFloat (Fin 1)]"

definition tiny_risk_row :: typed_row where
  \<comment> \<open>the inputs of P5 with \<open>vibration_level = 0.002\<close> and \<open>scaling_factor = 2\<close>\<close>
  "tiny_risk_row =
     p5_row(''vibration_level'' \<mapsto> PyFloat (Fin (2 / 1000)),
            ''scaling_factor'' \<mapsto> PyFloat (Fin 2))"


subsection \<open>Rows, messages and lines of the validation\<close>

definition field_messages :: "raw_row \<Rightarrow> string \<times> field_type \<Rightarrow> string list" where
  \<comment> \<open>the messages one field adds to \<open>row_errors\<close>\<close>
  "field_messages record fr = fst (validate_field record fr ([], Map.empty))"

definition field_value :: "raw_row \<Rightarrow> string \<times> field_type \<Rightarrow> pyval option" where
  \<comment> \<open>the value one field stores in \<open>valid_record\<close>, if any\<close>
  "field_value record fr = snd (validate_field record fr ([], Map.empty)) (fst fr)"

definition row_errors :: "raw_row \<Rightarrow> string list" where
  \<comment> \<open>the messages of a row: those of its fields, in the order of the schema\<close>
  "row_errors record = concat (map (field_messages record) field_requirements)"





definition m501_raw :: raw_row where
  \<comment> \<open>the first line of the sample data, \<open>M501,50,2,80,30,200,5\<close>\<close>
  "m501_raw =
     [''machine_id'' \<mapsto> ''M501'', ''runtime_hours'' \<mapsto> ''50'',
      ''vibration_level'' \<mapsto> ''2'', ''temperature'' \<mapsto> ''80'',
      ''maintenance_threshold'' \<mapsto> ''30'', ''max_operating_hours'' \<mapsto> ''200'',
      ''scaling_factor'' \<mapsto> ''5'']"


definition p3_rows :: "raw_row list" where
  \<comment> \<open>a header without \<open>scaling_factor\<close>, and a second row with a bad value\<close>
  "p3_rows =
     [m501_raw(''scaling_factor'' := None),
      m501_raw(''scaling_factor'' := None, ''runtime_hours'' \<mapsto> ''abc'')]"

definition nan_temperature_raw :: raw_row where
  \<comment> \<open>the CSV line \<open>M501,50,2,nan,30,200,5\<close>\<close>
  "nan_temperature_raw = m501_raw(''temperature'' \<mapsto> ''nan'')"

subsection \<open>Integer literals\<close>



fun split_on :: "char \<Rightarrow> string \<Rightarrow> string list" where
  \<comment> \<open>\<open>s.split(c)\<close>\<close>
  "split_on c [] = [[]]"
| "split_on c (x # xs) =
     (if x = c then [] # split_on c xs
      else (x # hd (split_on c xs)) # tl (split_on c xs))"





section \<open>Properties of the metrics calculation\<close>

lemma and_then_Inr [simp]: "and_then (Inr x) f = f x"
  by (simp add: and_then_def)

lemma and_then_Inl [simp]: "and_then (Inl e) f = Inl e"
  by (simp add: and_then_def)

lemma and_then_eq_Inr: "and_then m f = Inr y \<longleftrightarrow> (\<exists>x. m = Inr x \<and> f x = Inr y)"
  by (cases m) simp_all

lemmas parse_eval =
  py_strip_def py_isspace_def py_float_def py_int_def read_sign_def read_digitpart_def
  is_digit_def digit_val_def read_number_def read_exponent_def

lemmas validate_eval =
  validate_data_def required_fields_def field_requirements_def validate_record_def
  validate_field_def fle_def digit_char_def str_int_def


lemma small_risk_raises: "calculate_metrics small_risk_row = Inl ZeroDivisionError"
  by code_simp

lemma small_risk_validates: "validate_data [small_risk_raw] = Inr (True, [], [small_risk_row])"
  by (simp add: small_risk_raw_def small_risk_row_def validate_eval parse_eval)

text \<open>
  C1. The claim: on every TypedRow with \<open>runtime_hours\<close>, \<open>max_operating_hours\<close>,
  \<open>vibration_level\<close> and \<open>scaling_factor\<close> greater than 0, \<open>calculate_metrics\<close> has no error
  path, the divisor \<open>round(vibration_level * scaling_factor, 2)\<close> never being zero.
  The code at \<open>vibration_level = 0.001\<close>, \<open>scaling_factor = 1\<close>: the row has the four
  invariants, the product 0.001 rounds to 0.0, and line 157 divides \<open>runtime_hours\<close> by it,
  which raises ZeroDivisionError. The row is what validation returns for the CSV line
  \<open>M1,50,0.001,80,30,200,1\<close>, and the exception leaves \<open>process_csv_data\<close>.
\<close>

theorem calculate_metrics_rounded_risk_zero:
  "typed_row_invariants small_risk_row \<and>
   calculate_metrics small_risk_row = Inl ZeroDivisionError \<and>
   validate_data [small_risk_raw] = Inr (True, [], [small_risk_row]) \<and>
   (\<forall>generate_analysis_report csv_data.
      process_csv_data (\<lambda>text. Inr [small_risk_raw]) generate_analysis_report csv_data
        = Inl ZeroDivisionError)"
proof -
  have "typed_row_invariants small_risk_row"
    by (simp add: typed_row_invariants_def small_risk_row_def)
  moreover have "process_csv_data (\<lambda>text. Inr [small_risk_raw]) g csv = Inl ZeroDivisionError"
    for g csv
    by (simp add: process_csv_data_def process_csv_data_with_def parse_csv_data_def
        small_risk_validates small_risk_raises)
  ultimately show ?thesis
    using small_risk_raises small_risk_validates by blast
qed



text \<open>
  The classification of a returned result: the status is "Optimal" exactly under the
  specification's condition on the rounded values, "Requires Maintenance" otherwise, each
  with its recommendation. With the numbers of P4 and a threshold of 10 the machine
  requires maintenance.
\<close>

lemma calculate_metrics_classification:
  assumes "calculate_metrics record = Inr res"
  shows "\<exists>cs er mur thr t.
           as_float (composite_score res) = Some cs \<and>
           as_float (efficiency_ratio res) = Some er \<and>
           as_float (maintenance_urgency_ratio res) = Some mur \<and>
           record ''maintenance_threshold'' = Some t \<and> as_float t = Some thr \<and>
           ((status res = ''Optimal'' \<and>
             recommendation res = ''No immediate maintenance required'')
              = spec_optimal cs er mur thr) \<and>
           ((status res = ''Requires Maintenance'' \<and>
             recommendation res = ''Schedule maintenance promptly'')
              = (\<not> spec_optimal cs er mur thr))"
proof -
  from assms obtain t where t: "record ''maintenance_threshold'' = Some t"
    and c: "classify (composite_score res) (efficiency_ratio res)
              (maintenance_urgency_ratio res) t = Inr (status res, recommendation res)"
    by (auto simp: calculate_metrics_def and_then_eq_Inr getitem_def
        split: option.splits prod.splits)
  from c show ?thesis
    using t
    by (auto simp: classify_def and_then_eq_Inr py_le_def py_lt_def spec_optimal_def
        split: option.splits if_splits)
qed

lemma p5_requires_maintenance:
  "calculate_metrics p5_row =
     Inr \<lparr>predicted_failure_risk = PyFloat (Fin 10),
          maintenance_urgency_ratio = PyFloat (Fin 20),
          operating_margin = PyFloat (Fin 75), composite_score = PyFloat (Fin (785 / 10)),
          efficiency_ratio = PyFloat (Fin 5), status = ''Requires Maintenance'',
          recommendation = ''Schedule maintenance promptly''\<rparr>"
  by code_simp

text \<open>
  C3. The claim: for every TypedRow, \<open>calculate_metrics\<close> returns "Optimal" under the three
  conditions and "Requires Maintenance" in every other case. The code on the inputs of P5
  with \<open>vibration_level = 0.002\<close> and \<open>scaling_factor = 2\<close>, a row with the four invariants:
  the product 0.004 rounds to 0.0, line 157 raises ZeroDivisionError before the
  classification is reached, and no status is returned.
\<close>

theorem calculate_metrics_no_status_on_zero_risk:
  "typed_row_invariants tiny_risk_row \<and>
   calculate_metrics tiny_risk_row = Inl ZeroDivisionError \<and>
   (\<forall>res. calculate_metrics tiny_risk_row \<noteq> Inr res)"
proof -
  have "typed_row_invariants tiny_risk_row"
    by (simp add: typed_row_invariants_def tiny_risk_row_def p5_row_def p4_row_def)
  moreover have "calculate_metrics tiny_risk_row = Inl ZeroDivisionError"
    by code_simp
  ultimately show ?thesis by simp
qed

text \<open>
  C10. The outcome of \<open>calculate_metrics\<close>, a result or an exception, depends on
  \<open>runtime_hours\<close>, \<open>vibration_level\<close>, \<open>maintenance_threshold\<close>, \<open>max_operating_hours\<close> and
  \<open>scaling_factor\<close> only: two rows that agree on these five keys, whatever their
  \<open>machine_id\<close> and \<open>temperature\<close>, have the same outcome.
\<close>

theorem calculate_metrics_ignores_id_and_temperature:
  assumes "r1 ''runtime_hours'' = r2 ''runtime_hours''"
    and "r1 ''vibration_level'' = r2 ''vibration_level''"
    and "r1 ''maintenance_threshold'' = r2 ''maintenance_threshold''"
    and "r1 ''max_operating_hours'' = r2 ''max_operating_hours''"
    and "r1 ''scaling_factor'' = r2 ''scaling_factor''"
  shows "calculate_metrics r1 = calculate_metrics r2"
  using assms by (simp add: calculate_metrics_def getitem_def)

theorem calculate_metrics_ignores_id_and_temperature_witness:
  "p4_row ''machine_id'' \<noteq> p4_row_renamed ''machine_id'' \<and>
   p4_row ''temperature'' \<noteq> p4_row_renamed ''temperature'' \<and>
   calculate_metrics p4_row = calculate_metrics p4_row_renamed"
proof -
  have "calculate_metrics p4_row = calculate_metrics p4_row_renamed"
    by (rule calculate_metrics_ignores_id_and_temperature)
       (simp_all add: p4_row_def p4_row_renamed_def)
  then show ?thesis
    by (simp add: p4_row_def p4_row_renamed_def)
qed

section \<open>Properties of the validation\<close>



lemma field_messages_at_most_one: "length (field_messages record fr) \<le> 1"
  by (cases fr)
     (simp add: field_messages_def validate_field_def Let_def
       split: option.splits field_type.splits)











text \<open>
  C5. When the first row lacks required fields, \<open>validate_data\<close> returns at once: the result is
  the single message that lists every missing field name, joined by a comma and a space, and
  no typed row. Neither the other rows nor any cell's value enter the result, so no row
  message can appear.
\<close>

theorem validate_data_missing_header:
  assumes "missing_fields = filter (\<lambda>field. first_record field = None) required_fields"
    and "missing_fields \<noteq> []"
  shows "validate_data (first_record # rest) =
           Inr (False, ''ERROR: Missing required field(s): '' @ join '', '' missing_fields
                  @ '' in header.'', [])"
  using assms by (simp add: validate_data_def)

theorem validate_data_missing_header_witness:
  "validate_data p3_rows =
     Inr (False, ''ERROR: Missing required field(s): scaling_factor in header.'', [])"
proof -
  have missing: "[''scaling_factor''] =
      filter (\<lambda>field. (m501_raw(''scaling_factor'' := None)) field = None) required_fields"
    by (simp add: m501_raw_def required_fields_def field_requirements_def)
  have nonempty: "[''scaling_factor''] \<noteq> ([] :: string list)"
    by simp
  have "validate_data p3_rows =
      Inr (False, ''ERROR: Missing required field(s): '' @ join '', '' [''scaling_factor'']
             @ '' in header.'', [])"
    unfolding p3_rows_def by (rule validate_data_missing_header [OF missing nonempty])
  then show ?thesis by simp
qed

text \<open>
  C9. When the reader finds no data row, \<open>parse_csv_data\<close> returns the error text with
  "No data found in the CSV input" and \<open>process_csv_data\<close> returns that text as it is: the
  result is the same whatever the validation and the metrics calculation would do, neither
  being called. (Called on no rows, \<open>validate_data\<close> itself would raise IndexError at
  \<open>records[0]\<close>.)
\<close>

theorem process_csv_data_no_rows:
  assumes "reader (py_strip csv_data) = Inr []"
  shows "process_csv_data_with validate calculate reader generate_analysis_report csv_data =
           Inr (''ERROR: Invalid data format. Please provide data in CSV format. Details: ''
                  @ ''No data found in the CSV input'') \<and>
         process_csv_data reader generate_analysis_report csv_data =
           Inr (''ERROR: Invalid data format. Please provide data in CSV format. Details: ''
                  @ ''No data found in the CSV input'')"
  using assms
  by (simp add: process_csv_data_def process_csv_data_with_def parse_csv_data_def)

theorem process_csv_data_no_rows_witness:
  "process_csv_data (\<lambda>text. Inr []) (\<lambda>records calculations. []) [] =
     Inr ''ERROR: Invalid data format. Please provide data in CSV format. Details: No data found in the CSV input''"
proof -
  have "(\<lambda>text. Inr []) (py_strip []) = (Inr [] :: string + raw_row list)"
    by simp
  from process_csv_data_no_rows [where reader = "\<lambda>text. Inr []", OF this]
  show ?thesis by simp
qed















section \<open>Properties of the field checks\<close>

text \<open>
  A range field whose text \<open>float\<close> parses is stored unless the number is below the minimum
  or above the maximum, and gets the range message otherwise; a text that does not parse gets
  the message "must be a number". For a finite number this is membership in the closed
  interval: 0 and 200 are accepted as a temperature, 200.01 is not.
\<close>

lemma range_field:
  assumes "record field = Some raw" and "py_strip raw \<noteq> []"
  shows "field_messages record (field, Type_range lo hi) =
           (case py_float (py_strip raw) of
              None \<Rightarrow> [''Invalid value for '' @ field @ '': must be a number'']
            | Some x \<Rightarrow>
                if flt x (Fin (of_int lo)) \<or> flt (Fin (of_int hi)) x
                then [''Invalid value for '' @ field @ '': must be between '' @ str_int lo
                        @ '' and '' @ str_int hi]
                else [])"
    and "field_value record (field, Type_range lo hi) =
           (case py_float (py_strip raw) of
              None \<Rightarrow> None
            | Some x \<Rightarrow>
                if flt x (Fin (of_int lo)) \<or> flt (Fin (of_int hi)) x then None
                else Some (PyFloat x))"
  using assms
  by (simp_all add: field_messages_def field_value_def validate_field_def Let_def
      split: option.splits)

lemma range_field_finite:
  assumes "record field = Some raw" and "py_strip raw \<noteq> []"
    and "py_float (py_strip raw) = Some (Fin q)"
  shows "(field_messages record (field, Type_range lo hi) = []) =
           (of_int lo \<le> q \<and> q \<le> of_int hi)"
    and "(field_value record (field, Type_range lo hi) = Some (PyFloat (Fin q))) =
           (of_int lo \<le> q \<and> q \<le> of_int hi)"
  using assms by (auto simp: range_field)

lemma range_boundaries:
  "field_messages [''temperature'' \<mapsto> ''0''] (''temperature'', Type_range 0 200) = []"
  "field_messages [''temperature'' \<mapsto> ''200''] (''temperature'', Type_range 0 200) = []"
  "field_messages [''temperature'' \<mapsto> ''200.01''] (''temperature'', Type_range 0 200) =
     [''Invalid value for temperature: must be between 0 and 200'']"
  "field_messages [''temperature'' \<mapsto> ''abc''] (''temperature'', Type_range 0 200) =
     [''Invalid value for temperature: must be a number'']"
  by code_simp+

text \<open>
  C7. The claim: a range field accepts a value exactly when it is a number of the closed
  interval, and reports "must be between ..." or "must be a number" otherwise. The code on the
  temperature \<open>nan\<close>: \<open>float("nan")\<close> succeeds, both comparisons of line 89 are false for
  NaN, and the value is stored without a message: the row \<open>M501,50,2,nan,30,200,5\<close>
  validates, with a temperature that is not a number.
\<close>

theorem range_field_accepts_nan:
  "py_float ''nan'' = Some NaN \<and>
   field_messages nan_temperature_raw (''temperature'', Type_range 0 200) = [] \<and>
   field_value nan_temperature_raw (''temperature'', Type_range 0 200) = Some (PyFloat NaN) \<and>
   (\<exists>valid_record. validate_data [nan_temperature_raw] = Inr (True, [], [valid_record]) \<and>
      valid_record ''temperature'' = Some (PyFloat NaN))"
proof -
  have "py_float ''nan'' = Some NaN"
    by (simp add: parse_eval)
  moreover have "field_messages nan_temperature_raw (''temperature'', Type_range 0 200) = []"
    by (simp add: nan_temperature_raw_def m501_raw_def field_messages_def validate_field_def
        parse_eval)
  moreover have
    "field_value nan_temperature_raw (''temperature'', Type_range 0 200) = Some (PyFloat NaN)"
    by (simp add: nan_temperature_raw_def m501_raw_def field_value_def validate_field_def
        parse_eval)
  moreover have "\<exists>valid_record.
      validate_data [nan_temperature_raw] = Inr (True, [], [valid_record]) \<and>
      valid_record ''temperature'' = Some (PyFloat NaN)"
    by (simp add: nan_temperature_raw_def m501_raw_def validate_eval parse_eval)
  ultimately show ?thesis
    by blast
qed

text \<open>
  \<open>int(s)\<close> accepts exactly the integer literals: an optional sign and groups of decimal
  digits separated by single underscores; its value is the number of the digits.
\<close>

lemma underscore_not_digit [simp]: "\<not> is_digit (CHR ''_'')"
  by (simp add: is_digit_def)

lemma sign_not_digit [simp]: "\<not> is_digit (CHR ''+'')" "\<not> is_digit (CHR ''-'')"
  by (simp_all add: is_digit_def)

lemma split_on_not_Nil [simp]: "split_on c s \<noteq> []"
  by (cases s) simp_all

















end
